theory Spec2Isabelle
  imports Main "HOL-Library.Word"
begin

section \<open>Python values and their text rendering\<close>

text \<open>
  Strings are byte lists (\<open>string\<close>). The separator \<open>/\<close> is a single byte that never
  occurs inside a multi-byte UTF-8 sequence, so splitting and joining on it agree with
  Python's code-point strings.
\<close>

text \<open>
  The values a partition dictionary can hold (\<open>Any\<close> in the source). \<open>PyObject s\<close> stands
  for any other object, given by the text \<open>s\<close> that \<open>str()\<close> returns for it.
\<close>

datatype pyval = PyNone | PyBool bool | PyInt int | PyStr string | PyObject string

definition digit_char :: "nat \<Rightarrow> char" where
  "digit_char d = ''0123456789'' ! d"

fun nat_digits :: "nat \<Rightarrow> string" where
  "nat_digits n =
     (if n < 10 then [digit_char n] else nat_digits (n div 10) @ [digit_char (n mod 10)])"

declare nat_digits.simps [simp del]

text \<open>\<open>str(i)\<close> for a Python int: decimal digits, with a leading minus sign below zero.\<close>

definition str_int :: "int \<Rightarrow> string" where
  "str_int i = (if i < 0 then CHR ''-'' # nat_digits (nat (- i)) else nat_digits (nat i))"

fun str_py :: "pyval \<Rightarrow> string" where
  "str_py PyNone = ''None''"
| "str_py (PyBool b) = (if b then ''True'' else ''False'')"
| "str_py (PyInt i) = str_int i"
| "str_py (PyStr s) = s"
| "str_py (PyObject s) = s"

section \<open>pathlib: pure POSIX paths\<close>

text \<open>
  \<open>table_path\<close> is a \<open>pathlib.Path\<close>; on a POSIX system that is a \<open>PosixPath\<close>, whose
  drive is always empty. A path is its root (\<open>''''\<close>, \<open>''/''\<close> or \<open>''//''\<close>) and the list
  of its components.
\<close>

record Path =
  root :: string
  tail :: "string list"

text \<open>\<open>s.split(c)\<close>: the pieces between the separators, empty pieces included.\<close>

fun str_split :: "char \<Rightarrow> string \<Rightarrow> string list" where
  "str_split c [] = [[]]"
| "str_split c (x # xs) =
     (if x = c then [] # str_split c xs
      else (case str_split c xs of [] \<Rightarrow> [[x]] | y # ys \<Rightarrow> (x # y) # ys))"

text \<open>\<open>sep.join(parts)\<close>.\<close>

fun str_join :: "string \<Rightarrow> string list \<Rightarrow> string" where
  "str_join sep [] = []"
| "str_join sep [x] = x"
| "str_join sep (x # y # ys) = x @ sep @ str_join sep (y # ys)"

text \<open>
  \<open>posixpath.splitroot\<close>: a relative path has no root; exactly two leading slashes are
  kept as the root \<open>//\<close>; one slash, or three and more, give the root \<open>/\<close>.
\<close>

definition splitroot :: "string \<Rightarrow> string \<times> string" where
  "splitroot p =
     (if take 1 p \<noteq> ''/'' then ('''', p)
      else if take 1 (drop 1 p) \<noteq> ''/'' \<or> take 1 (drop 2 p) = ''/'' then (''/'', drop 1 p)
      else (''//'', drop 2 p))"

text \<open>The components of a path text: empty pieces and \<open>.\<close> are dropped, \<open>..\<close> is kept.\<close>

definition components :: "string \<Rightarrow> string list" where
  "components rel = filter (\<lambda>x. x \<noteq> [] \<and> x \<noteq> ''.'') (str_split CHR ''/'' rel)"

definition parse_path :: "string \<Rightarrow> Path" where
  "parse_path p = (case splitroot p of (r, rel) \<Rightarrow> \<lparr>root = r, tail = components rel\<rparr>)"

text \<open>
  \<open>path / key\<close> for a string \<open>key\<close>: the texts are joined by \<open>posixpath.join\<close> and parsed
  again. A key that starts with a slash is absolute and replaces the whole path;
  otherwise its components are added after those of the path.
\<close>

definition truediv :: "Path \<Rightarrow> string \<Rightarrow> Path" where
  "truediv p key =
     (if take 1 key = ''/'' then parse_path key
      else p\<lparr>tail := tail p @ components key\<rparr>)"

text \<open>\<open>str(path)\<close>: root and components joined by slashes; the empty path is \<open>.\<close>.\<close>

definition path_str :: "Path \<Rightarrow> string" where
  "path_str p =
     (let s = root p @ str_join ''/'' (tail p) in if s = [] then ''.'' else s)"

section \<open>The DataFileMeta record\<close>

text \<open>
  Modelled from the spec: \<open>BinaryRow\<close> and its \<open>to_dict\<close> (module
  \<open>pypaimon.table.row.binary_row\<close>) are not part of the sources at hand. A partition value
  is an ordered mapping from partition-column name to value, so a row is modelled by the
  dictionary that \<open>to_dict\<close> returns, as an association list in iteration order.
\<close>

datatype BinaryRow = BinaryRow (to_dict: "(string \<times> pyval) list")

text \<open>\<open>datetime\<close> values are represented by their epoch milliseconds.\<close>

type_synonym datetime = int

type_synonym bytes = "8 word list"

record DataFileMeta =
  file_name :: string
  file_size :: int
  row_count :: int
  min_key :: "BinaryRow option"
  max_key :: "BinaryRow option"
  key_stats :: "(string \<times> pyval) list option"
  value_stats :: "(string \<times> pyval) list option"
  min_sequence_number :: int
  max_sequence_number :: int
  schema_id :: int
  level :: int
  extra_files :: "string list option"
  creation_time :: "datetime option"
  delete_row_count :: "int option"
  embedded_index :: "bytes option"
  file_source :: "string option"
  value_stats_cols :: "string list option"
  external_path :: "string option"
  file_path :: "string option"

text \<open>
  The loop of \<open>set_file_path\<close> over \<open>partition_dict.items()\<close>: one \<open>/\<close> step per column,
  in iteration order.
\<close>

fun append_partition :: "Path \<Rightarrow> (string \<times> pyval) list \<Rightarrow> Path" where
  "append_partition path_builder [] = path_builder"
| "append_partition path_builder ((field_name, field_value) # items) =
     append_partition (truediv path_builder (field_name @ ''='' @ str_py field_value)) items"

text \<open>
  The method mutates \<open>self\<close>; the model returns the updated record. It reads no file and
  writes none: the only effect is the new value of \<open>file_path\<close>.
\<close>

definition set_file_path :: "DataFileMeta \<Rightarrow> Path \<Rightarrow> BinaryRow \<Rightarrow> int \<Rightarrow> DataFileMeta" where
  "set_file_path self table_path partition' bucket =
     (let path_builder = table_path;
          partition_dict = to_dict partition';
          path_builder = append_partition path_builder partition_dict;
          path_builder = truediv (truediv path_builder (''bucket-'' @ str_int bucket))
                           (file_name self)
      in self\<lparr>file_path := Some (path_str path_builder)\<rparr>)"

section \<open>The resolve-path operation as the specification words it\<close>

text \<open>
  Following the specification: start from the table root; append one path segment
  \<open><column>=<value>\<close> per partition column in the partition value's iteration order;
  append a segment \<open>bucket-<bucket>\<close>; append the file name as the final segment. Each
  segment is one component of the resulting path.
\<close>

definition spec_segments :: "(string \<times> pyval) list \<Rightarrow> int \<Rightarrow> string \<Rightarrow> string list" where
  "spec_segments partition_dict bucket name =
     map (\<lambda>(column, v). column @ ''='' @ str_py v) partition_dict
       @ [''bucket-'' @ str_int bucket, name]"

definition spec_resolve_path :: "Path \<Rightarrow> (string \<times> pyval) list \<Rightarrow> int \<Rightarrow> string \<Rightarrow> string" where
  "spec_resolve_path table_root partition_dict bucket name =
     path_str (table_root\<lparr>tail := tail table_root @ spec_segments partition_dict bucket name\<rparr>)"

text \<open>
  A text that is exactly one path component: not empty, not \<open>.\<close>, and without a slash.
\<close>

definition plain_segment :: "string \<Rightarrow> bool" where
  "plain_segment s \<longleftrightarrow> s \<noteq> [] \<and> s \<noteq> ''.'' \<and> CHR ''/'' \<notin> set s"

text \<open>No column name and no rendered value of the partition contains a slash.\<close>

definition plain_partition :: "(string \<times> pyval) list \<Rightarrow> bool" where
  "plain_partition partition_dict =
     list_all (\<lambda>(column, v). CHR ''/'' \<notin> set column \<and> CHR ''/'' \<notin> set (str_py v)) partition_dict"

section \<open>The schema descriptor\<close>

datatype avro_type =
  AvNull | AvInt | AvLong | AvString | AvBytes | AvArray avro_type | AvUnion "avro_type list"

text \<open>Values of the record encoding; Python's \<open>None\<close> is the value \<open>VNull\<close>.\<close>

datatype avro_value =
  VNull | VInt int | VLong int | VString string | VBytes bytes | VArray "avro_value list"

text \<open>
  One entry of \<open>"fields"\<close>: the keys \<open>"name"\<close> and \<open>"type"\<close>, and the key \<open>"default"\<close>
  when the entry has one (\<open>None\<close> here means that the key is missing).
\<close>

record schema_field =
  fname :: string
  ftype :: avro_type
  fdefault :: "avro_value option"

record avro_schema =
  stype :: string
  sname :: string
  sfields :: "schema_field list"

definition required :: "string \<Rightarrow> avro_type \<Rightarrow> schema_field" where
  "required n t = \<lparr>fname = n, ftype = t, fdefault = None\<rparr>"

definition defaulted :: "string \<Rightarrow> avro_type \<Rightarrow> avro_value \<Rightarrow> schema_field" where
  "defaulted n t d = \<lparr>fname = n, ftype = t, fdefault = Some d\<rparr>"

definition DATA_FILE_META_SCHEMA :: avro_schema where
  "DATA_FILE_META_SCHEMA = \<lparr>
     stype = ''record'',
     sname = ''DataFileMeta'',
     sfields = [
       required ''_FILE_NAME'' AvString,
       required ''_FILE_SIZE'' AvLong,
       required ''_ROW_COUNT'' AvLong,
       required ''_MIN_KEY'' AvBytes,
       required ''_MAX_KEY'' AvBytes,
       required ''_KEY_STATS'' AvLong,
       required ''_VALUE_STATS'' AvLong,
       required ''_MIN_SEQUENCE_NUMBER'' AvLong,
       required ''_MAX_SEQUENCE_NUMBER'' AvLong,
       required ''_SCHEMA_ID'' AvLong,
       required ''_LEVEL'' AvInt,
       required ''_EXTRA_FILES'' (AvArray AvString),
       defaulted ''_CREATION_TIME'' (AvUnion [AvNull, AvLong]) VNull,
       defaulted ''_DELETE_ROW_COUNT'' (AvUnion [AvNull, AvLong]) VNull,
       defaulted ''_EMBEDDED_FILE_INDEX'' (AvUnion [AvNull, AvBytes]) VNull,
       defaulted ''_FILE_SOURCE'' (AvUnion [AvNull, AvInt]) VNull,
       defaulted ''_VALUE_STATS_COLS'' (AvUnion [AvNull, AvArray AvString]) VNull,
       defaulted ''_EXTERNAL_PATH'' (AvUnion [AvNull, AvString]) VNull
     ]\<rparr>"

text \<open>A field is nullable when its type is a union with \<open>null\<close> among the branches.\<close>

definition nullable :: "schema_field \<Rightarrow> bool" where
  "nullable f = (case ftype f of AvUnion ts \<Rightarrow> List.member ts AvNull | _ \<Rightarrow> False)"

text \<open>\<open>mentions pat s\<close>: the text \<open>pat\<close> occurs somewhere in \<open>s\<close>.\<close>

fun mentions :: "string \<Rightarrow> string \<Rightarrow> bool" where
  "mentions pat [] = (pat = [])"
| "mentions pat (x # xs) = (take (length pat) (x # xs) = pat \<or> mentions pat xs)"

text \<open>The durable names of the twelve original fields and of the six later ones.\<close>

definition original_names :: "string list" where
  "original_names =
     [''_FILE_NAME'', ''_FILE_SIZE'', ''_ROW_COUNT'', ''_MIN_KEY'', ''_MAX_KEY'',
      ''_KEY_STATS'', ''_VALUE_STATS'', ''_MIN_SEQUENCE_NUMBER'', ''_MAX_SEQUENCE_NUMBER'',
      ''_SCHEMA_ID'', ''_LEVEL'', ''_EXTRA_FILES'']"

definition optional_names :: "string list" where
  "optional_names =
     [''_CREATION_TIME'', ''_DELETE_ROW_COUNT'', ''_EMBEDDED_FILE_INDEX'', ''_FILE_SOURCE'',
      ''_VALUE_STATS_COLS'', ''_EXTERNAL_PATH'']"

section \<open>Decoding under a schema descriptor\<close>

datatype decode_error = MissingField string

text \<open>
  Modelled from the spec: the manifest reader and the record decoding engine are not part
  of the sources at hand. The specification gives the decoder two outcomes per field: a
  field that the encoded record lacks and that has no default is a decode error; a field
  that the encoded record lacks and that has a default is resolved to that default. An
  encoded record is given by the named values its writer stored; the decoded record lists
  the fields of the reader's schema in schema order.
\<close>

definition decode_field :: "schema_field \<Rightarrow> (string \<times> avro_value) list \<Rightarrow> decode_error + avro_value" where
  "decode_field f encoded =
     (case map_of encoded (fname f) of
        Some v \<Rightarrow> Inr v
      | None \<Rightarrow> (case fdefault f of Some d \<Rightarrow> Inr d | None \<Rightarrow> Inl (MissingField (fname f))))"

fun decode_fields ::
  "schema_field list \<Rightarrow> (string \<times> avro_value) list \<Rightarrow> decode_error + (string \<times> avro_value) list" where
  "decode_fields [] encoded = Inr []"
| "decode_fields (f # fs) encoded =
     (case decode_field f encoded of
        Inl e \<Rightarrow> Inl e
      | Inr v \<Rightarrow> (case decode_fields fs encoded of
                   Inl e \<Rightarrow> Inl e
                 | Inr rest \<Rightarrow> Inr ((fname f, v) # rest)))"

definition decode :: "avro_schema \<Rightarrow> (string \<times> avro_value) list \<Rightarrow> decode_error + (string \<times> avro_value) list" where
  "decode schema encoded = decode_fields (sfields schema) encoded"

section \<open>Example records\<close>

text \<open>The data file of the specification's first example, with every optional field unset.\<close>

definition example_meta :: DataFileMeta where
  "example_meta = \<lparr>
     file_name = ''data-0001.parquet'', file_size = 4096, row_count = 100,
     min_key = None, max_key = None, key_stats = None, value_stats = None,
     min_sequence_number = 1, max_sequence_number = 100, schema_id = 0, level = 0,
     extra_files = Some [],
     creation_time = None, delete_row_count = None, embedded_index = None,
     file_source = None, value_stats_cols = None, external_path = None,
     file_path = None\<rparr>"

definition example_root :: Path where
  "example_root = parse_path ''/warehouse/t1''"

definition example_partition :: BinaryRow where
  "example_partition = BinaryRow [(''dt'', PyStr ''2024-01-01'')]"

text \<open>A manifest record as an older writer stored it: the twelve original fields only.\<close>

definition legacy_encoded :: "(string \<times> avro_value) list" where
  "legacy_encoded =
     [(''_FILE_NAME'', VString ''data-0001.parquet''), (''_FILE_SIZE'', VLong 4096),
      (''_ROW_COUNT'', VLong 100), (''_MIN_KEY'', VBytes []), (''_MAX_KEY'', VBytes []),
      (''_KEY_STATS'', VLong 0), (''_VALUE_STATS'', VLong 0),
      (''_MIN_SEQUENCE_NUMBER'', VLong 1), (''_MAX_SEQUENCE_NUMBER'', VLong 100),
      (''_SCHEMA_ID'', VLong 0), (''_LEVEL'', VInt 0), (''_EXTRA_FILES'', VArray [])]"

section \<open>Facts about the path operations\<close>

text \<open>Unfolding these definitions evaluates path resolution on concrete inputs.\<close>

lemmas eval_defs = set_file_path_def parse_path_def splitroot_def components_def truediv_def
  path_str_def str_int_def nat_digits.simps digit_char_def example_meta_def example_root_def
  example_partition_def

lemma str_split_no_sep: "c \<notin> set s \<Longrightarrow> str_split c s = [s]"
  by (induction s) auto

lemma components_plain: "plain_segment s \<Longrightarrow> components s = [s]"
  by (simp add: plain_segment_def components_def str_split_no_sep)

lemma plain_not_absolute: "CHR ''/'' \<notin> set s \<Longrightarrow> take 1 s \<noteq> ''/''"
  by (cases s) auto

lemma truediv_plain:
  assumes "plain_segment s"
  shows "truediv p s = p\<lparr>tail := tail p @ [s]\<rparr>"
proof -
  from assms have "take 1 s \<noteq> ''/''"
    by (intro plain_not_absolute) (simp add: plain_segment_def)
  then show ?thesis
    unfolding truediv_def by (simp only: if_False components_plain [OF assms])
qed

lemma digit_char_no_slash: "d < 10 \<Longrightarrow> digit_char d \<noteq> CHR ''/''"
proof -
  assume "d < 10"
  then have "d \<in> {0, 1, 2, 3, 4, 5, 6, 7, 8, 9}" by auto
  then show ?thesis by (auto simp: digit_char_def)
qed

lemma nat_digits_no_slash: "CHR ''/'' \<notin> set (nat_digits n)"
proof (induction n rule: nat_digits.induct)
  case (1 n)
  show ?case
  proof (cases "n < 10")
    case True
    then show ?thesis using digit_char_no_slash [of n] by (simp add: nat_digits.simps)
  next
    case False
    have "n mod 10 < 10" by simp
    then have "digit_char (n mod 10) \<noteq> CHR ''/''" by (rule digit_char_no_slash)
    with False 1 show ?thesis by (subst nat_digits.simps) auto
  qed
qed

lemma str_int_no_slash: "CHR ''/'' \<notin> set (str_int i)"
  by (simp add: str_int_def nat_digits_no_slash)

lemma plain_bucket: "plain_segment (''bucket-'' @ str_int bucket)"
  by (simp add: plain_segment_def str_int_no_slash)

lemma plain_column:
  assumes "CHR ''/'' \<notin> set column" and "CHR ''/'' \<notin> set v"
  shows "plain_segment (column @ ''='' @ v)"
proof -
  have "CHR ''='' \<in> set (column @ ''='' @ v)" by simp
  moreover have "CHR ''='' \<notin> set ''.''" by simp
  ultimately have "column @ ''='' @ v \<noteq> ''.''" by metis
  with assms show ?thesis by (simp add: plain_segment_def)
qed

lemma append_partition_plain:
  "plain_partition items \<Longrightarrow>
   append_partition p items =
     p\<lparr>tail := tail p @ map (\<lambda>(column, v). column @ ''='' @ str_py v) items\<rparr>"
proof (induction items arbitrary: p)
  case Nil
  then show ?case by simp
next
  case (Cons item items)
  obtain column v where item: "item = (column, v)" by (cases item)
  from Cons.prems have rest: "plain_partition items"
    and "CHR ''/'' \<notin> set column" and "CHR ''/'' \<notin> set (str_py v)"
    by (simp_all add: plain_partition_def item)
  then have seg: "plain_segment (column @ ''='' @ str_py v)"
    by (intro plain_column)
  have "append_partition p (item # items) =
          append_partition (p\<lparr>tail := tail p @ [column @ ''='' @ str_py v]\<rparr>) items"
    unfolding item append_partition.simps truediv_plain [OF seg] ..
  also have "\<dots> = p\<lparr>tail := tail p @ map (\<lambda>(column, v). column @ ''='' @ str_py v) (item # items)\<rparr>"
    unfolding Cons.IH [OF rest] by (simp add: item)
  finally show ?case .
qed

lemma file_path_set_file_path:
  "file_path (set_file_path self table_path partition' bucket) =
     Some (path_str (truediv (truediv (append_partition table_path (to_dict partition'))
                                (''bucket-'' @ str_int bucket)) (file_name self)))"
  by (simp add: set_file_path_def)

lemma str_join_snoc:
  "str_join sep (xs @ [x]) = (if xs = [] then x else str_join sep xs @ sep @ x)"
  by (induction sep xs rule: str_join.induct) auto

lemma path_str_snoc:
  "name \<noteq> [] \<Longrightarrow>
   path_str (p\<lparr>tail := tail p @ [name]\<rparr>) =
     root p @ (if tail p = [] then [] else str_join ''/'' (tail p) @ ''/'') @ name"
  by (simp add: path_str_def str_join_snoc)

text \<open>
  Decoding succeeds as soon as every field without a default is present, and then each
  field takes the stored value, or its default where nothing is stored.
\<close>

lemma decode_fields_total:
  assumes "\<forall>f \<in> set fs. fdefault f = None \<longrightarrow> fname f \<in> fst ` set encoded"
  shows "decode_fields fs encoded =
           Inr (map (\<lambda>f. (fname f, case map_of encoded (fname f) of
                                     Some v \<Rightarrow> v | None \<Rightarrow> the (fdefault f))) fs)"
  using assms
proof (induction fs)
  case Nil
  then show ?case by simp
next
  case (Cons f fs)
  then have rest: "\<forall>f \<in> set fs. fdefault f = None \<longrightarrow> fname f \<in> fst ` set encoded"
    by simp
  have "decode_field f encoded =
          Inr (case map_of encoded (fname f) of Some v \<Rightarrow> v | None \<Rightarrow> the (fdefault f))"
  proof (cases "map_of encoded (fname f)")
    case (Some v)
    then show ?thesis by (simp add: decode_field_def)
  next
    case None
    then have "fname f \<notin> fst ` set encoded" by (simp add: map_of_eq_None_iff)
    with Cons.prems obtain d where "fdefault f = Some d" by auto
    with None show ?thesis by (simp add: decode_field_def)
  qed
  then show ?case by (simp add: Cons.IH [OF rest])
qed

section \<open>Path resolution\<close>

text \<open>
  Claim C1, as amended. When no partition column name and no rendered partition value
  contains a slash, and the file name is a single path component (not empty, not \<open>.\<close>,
  no slash), \<open>set_file_path\<close> stores the path that the specification describes: the
  components of the table root, then one segment \<open><column>=<value>\<close> per partition column
  in iteration order, then \<open>bucket-<bucket>\<close>, then the file name. This holds for every
  table root and every bucket, negative ones included.
\<close>

theorem set_file_path_follows_spec:
  assumes "plain_partition (to_dict partition')" and "plain_segment (file_name self)"
  shows "file_path (set_file_path self table_path partition' bucket) =
           Some (spec_resolve_path table_path (to_dict partition') bucket (file_name self))"
  unfolding file_path_set_file_path append_partition_plain [OF assms(1)]
    truediv_plain [OF plain_bucket] truediv_plain [OF assms(2)]
    spec_resolve_path_def spec_segments_def
  by simp

text \<open>
  The theorem at the specification's example: partition \<open>{"dt": "2024-01-01"}\<close>, bucket 3,
  file name \<open>data-0001.parquet\<close>, root \<open>/warehouse/t1\<close>.
\<close>

theorem set_file_path_follows_spec_witness:
  "plain_partition (to_dict example_partition) \<and> plain_segment (file_name example_meta) \<and>
   file_path (set_file_path example_meta example_root example_partition 3) =
     Some ''/warehouse/t1/dt=2024-01-01/bucket-3/data-0001.parquet''"
proof -
  have p: "plain_partition (to_dict example_partition)"
    by (simp add: plain_partition_def example_partition_def)
  have n: "plain_segment (file_name example_meta)"
    by (simp add: plain_segment_def example_meta_def)
  have "spec_resolve_path example_root (to_dict example_partition) 3 (file_name example_meta) =
          ''/warehouse/t1/dt=2024-01-01/bucket-3/data-0001.parquet''"
    by (simp add: spec_resolve_path_def spec_segments_def eval_defs)
  with set_file_path_follows_spec [OF p n, of example_root 3] p n show ?thesis by simp
qed

text \<open>
  Claim C1 as stated, for every record, fails: a file name that starts with a slash is an
  absolute key for the \<open>/\<close> operator of pathlib, which then drops the table root, the
  partition segments and the bucket segment.
\<close>

theorem absolute_file_name_counterexample:
  "file_path (set_file_path (example_meta\<lparr>file_name := ''/data-0001.parquet''\<rparr>)
                example_root example_partition 3) = Some ''/data-0001.parquet'' \<and>
   spec_resolve_path example_root (to_dict example_partition) 3 ''/data-0001.parquet'' =
     ''/warehouse/t1/dt=2024-01-01/bucket-3//data-0001.parquet'' \<and>
   file_path (set_file_path (example_meta\<lparr>file_name := ''/data-0001.parquet''\<rparr>)
                example_root example_partition 3) \<noteq>
     Some (spec_resolve_path example_root (to_dict example_partition) 3 ''/data-0001.parquet'')"
  by (simp add: spec_resolve_path_def spec_segments_def eval_defs)

text \<open>
  Claim C2, as amended. Under the same table root, partition and bucket, two records whose
  file names are single path components are resolved to the same path exactly when their
  file names are equal: distinct names give distinct paths, equal names give equal paths.
\<close>

theorem resolved_paths_injective:
  assumes "plain_segment (file_name a)" and "plain_segment (file_name b)"
  shows "file_path (set_file_path a table_path partition' bucket) =
           file_path (set_file_path b table_path partition' bucket)
         \<longleftrightarrow> file_name a = file_name b"
proof -
  define q where "q = truediv (append_partition table_path (to_dict partition'))
                        (''bucket-'' @ str_int bucket)"
  have ne: "file_name a \<noteq> []" "file_name b \<noteq> []"
    using assms by (simp_all add: plain_segment_def)
  have "file_path (set_file_path a table_path partition' bucket) =
          Some (path_str (q\<lparr>tail := tail q @ [file_name a]\<rparr>))"
    unfolding file_path_set_file_path q_def [symmetric] truediv_plain [OF assms(1)] ..
  moreover have "file_path (set_file_path b table_path partition' bucket) =
          Some (path_str (q\<lparr>tail := tail q @ [file_name b]\<rparr>))"
    unfolding file_path_set_file_path q_def [symmetric] truediv_plain [OF assms(2)] ..
  ultimately show ?thesis
    by (simp add: path_str_snoc ne)
qed

text \<open>
  The theorem at two data files of one bucket, \<open>data-0001.parquet\<close> and
  \<open>data-0002.parquet\<close>: their paths differ.
\<close>

theorem resolved_paths_injective_witness:
  "plain_segment (file_name example_meta) \<and>
   plain_segment (file_name (example_meta\<lparr>file_name := ''data-0002.parquet''\<rparr>)) \<and>
   file_name example_meta \<noteq> file_name (example_meta\<lparr>file_name := ''data-0002.parquet''\<rparr>) \<and>
   file_path (set_file_path example_meta example_root example_partition 3) \<noteq>
     file_path (set_file_path (example_meta\<lparr>file_name := ''data-0002.parquet''\<rparr>)
                  example_root example_partition 3)"
proof -
  have a: "plain_segment (file_name example_meta)"
    by (simp add: plain_segment_def example_meta_def)
  have b: "plain_segment (file_name (example_meta\<lparr>file_name := ''data-0002.parquet''\<rparr>))"
    by (simp add: plain_segment_def)
  have d: "file_name example_meta \<noteq> file_name (example_meta\<lparr>file_name := ''data-0002.parquet''\<rparr>)"
    by (simp add: example_meta_def)
  from resolved_paths_injective [OF a b, of example_root example_partition 3] a b d
  show ?thesis by blast
qed

text \<open>
  Claim C2 as stated, for any two records, fails: pathlib drops a leading \<open>./\<close> of a
  key, so the distinct file names \<open>data-0001.parquet\<close> and \<open>./data-0001.parquet\<close> are
  resolved to the same path.
\<close>

theorem dot_prefixed_file_name_counterexample:
  "file_name example_meta \<noteq> file_name (example_meta\<lparr>file_name := ''./data-0001.parquet''\<rparr>) \<and>
   file_path (set_file_path example_meta example_root example_partition 3) =
     file_path (set_file_path (example_meta\<lparr>file_name := ''./data-0001.parquet''\<rparr>)
                  example_root example_partition 3)"
  by (simp add: eval_defs)




text \<open>
  Claim C9. \<open>set_file_path\<close> changes the attribute \<open>file_path\<close> only: every other field
  of the record keeps its value, for every table root, partition and bucket, and putting
  the old \<open>file_path\<close> back gives the record before the call. The operation is a function
  of its arguments and reaches no storage.
\<close>

theorem set_file_path_frame:
  "file_name (set_file_path self table_path partition' bucket) = file_name self \<and>
   file_size (set_file_path self table_path partition' bucket) = file_size self \<and>
   row_count (set_file_path self table_path partition' bucket) = row_count self \<and>
   min_key (set_file_path self table_path partition' bucket) = min_key self \<and>
   max_key (set_file_path self table_path partition' bucket) = max_key self \<and>
   key_stats (set_file_path self table_path partition' bucket) = key_stats self \<and>
   value_stats (set_file_path self table_path partition' bucket) = value_stats self \<and>
   min_sequence_number (set_file_path self table_path partition' bucket) = min_sequence_number self \<and>
   max_sequence_number (set_file_path self table_path partition' bucket) = max_sequence_number self \<and>
   schema_id (set_file_path self table_path partition' bucket) = schema_id self \<and>
   level (set_file_path self table_path partition' bucket) = level self \<and>
   extra_files (set_file_path self table_path partition' bucket) = extra_files self \<and>
   creation_time (set_file_path self table_path partition' bucket) = creation_time self \<and>
   delete_row_count (set_file_path self table_path partition' bucket) = delete_row_count self \<and>
   embedded_index (set_file_path self table_path partition' bucket) = embedded_index self \<and>
   file_source (set_file_path self table_path partition' bucket) = file_source self \<and>
   value_stats_cols (set_file_path self table_path partition' bucket) = value_stats_cols self \<and>
   external_path (set_file_path self table_path partition' bucket) = external_path self \<and>
   (set_file_path self table_path partition' bucket)\<lparr>file_path := file_path self\<rparr> = self"
  by (simp add: set_file_path_def)

text \<open>
  Claim C10. The stored path depends on the table root, the partition, the bucket and
  the file name only: two records with the same file name get the same \<open>file_path\<close>,
  whatever their other fields hold.
\<close>

theorem path_depends_on_file_name_only:
  "file_name a = file_name b \<Longrightarrow>
   file_path (set_file_path a table_path partition' bucket) =
     file_path (set_file_path b table_path partition' bucket)"
  by (simp add: file_path_set_file_path)

text \<open>
  The theorem at two records of the same file name, one of them with another file size
  and with \<open>external_path\<close> set: the computed path is the same.
\<close>

theorem path_depends_on_file_name_only_witness:
  "file_name example_meta =
     file_name (example_meta\<lparr>file_size := 7, external_path := Some ''s3://other/place/f''\<rparr>) \<and>
   external_path example_meta \<noteq>
     external_path (example_meta\<lparr>file_size := 7, external_path := Some ''s3://other/place/f''\<rparr>) \<and>
   file_path (set_file_path example_meta example_root example_partition 3) =
     file_path (set_file_path (example_meta\<lparr>file_size := 7, external_path := Some ''s3://other/place/f''\<rparr>)
                  example_root example_partition 3)"
proof -
  have n: "file_name example_meta =
     file_name (example_meta\<lparr>file_size := 7, external_path := Some ''s3://other/place/f''\<rparr>)"
    by simp
  have e: "external_path example_meta \<noteq>
     external_path (example_meta\<lparr>file_size := 7, external_path := Some ''s3://other/place/f''\<rparr>)"
    by (simp add: example_meta_def)
  from path_depends_on_file_name_only [OF n, of example_root example_partition 3] n e
  show ?thesis by blast
qed

section \<open>The schema descriptor and decoding\<close>

text \<open>
  Claim C3. \<open>DATA_FILE_META_SCHEMA\<close> is a record schema named \<open>DataFileMeta\<close> with exactly
  18 fields in the order of the durable layout, each with the type of that layout. The first
  twelve (file name to extra files) are not nullable and have no default; the last six
  (creation time, delete row count, embedded file index, file source, value stats columns,
  external path) are nullable and have the explicit default null.
\<close>

theorem schema_layout:
  "stype DATA_FILE_META_SCHEMA = ''record'' \<and>
   sname DATA_FILE_META_SCHEMA = ''DataFileMeta'' \<and>
   length (sfields DATA_FILE_META_SCHEMA) = 18 \<and>
   map fname (sfields DATA_FILE_META_SCHEMA) =
     [''_FILE_NAME'', ''_FILE_SIZE'', ''_ROW_COUNT'', ''_MIN_KEY'', ''_MAX_KEY'',
      ''_KEY_STATS'', ''_VALUE_STATS'', ''_MIN_SEQUENCE_NUMBER'', ''_MAX_SEQUENCE_NUMBER'',
      ''_SCHEMA_ID'', ''_LEVEL'', ''_EXTRA_FILES'',
      ''_CREATION_TIME'', ''_DELETE_ROW_COUNT'', ''_EMBEDDED_FILE_INDEX'', ''_FILE_SOURCE'',
      ''_VALUE_STATS_COLS'', ''_EXTERNAL_PATH''] \<and>
   map ftype (sfields DATA_FILE_META_SCHEMA) =
     [AvString, AvLong, AvLong, AvBytes, AvBytes, AvLong, AvLong, AvLong, AvLong, AvLong,
      AvInt, AvArray AvString,
      AvUnion [AvNull, AvLong], AvUnion [AvNull, AvLong], AvUnion [AvNull, AvBytes],
      AvUnion [AvNull, AvInt], AvUnion [AvNull, AvArray AvString],
      AvUnion [AvNull, AvString]] \<and>
   map (\<lambda>f. (nullable f, fdefault f)) (take 12 (sfields DATA_FILE_META_SCHEMA)) =
     replicate 12 (False, None) \<and>
   map (\<lambda>f. (nullable f, fdefault f)) (drop 12 (sfields DATA_FILE_META_SCHEMA)) =
     replicate 6 (True, Some VNull)"
  by (simp add: DATA_FILE_META_SCHEMA_def required_def defaulted_def nullable_def
      numeral_eq_Suc)

text \<open>
  Claim C7. The schema descriptor has no field for \<open>file_path\<close>: no field has the durable
  name that the naming of the other fields would give it, \<open>_FILE_PATH\<close>, and no field name
  mentions \<open>FILE_PATH\<close> or \<open>file_path\<close> at all. So the durable form of a record, which
  holds the fields of the schema, carries no \<open>file_path\<close>.
\<close>

theorem schema_has_no_file_path:
  "''_FILE_PATH'' \<notin> set (map fname (sfields DATA_FILE_META_SCHEMA)) \<and>
   filter (\<lambda>n. mentions ''FILE_PATH'' n \<or> mentions ''file_path'' n)
     (map fname (sfields DATA_FILE_META_SCHEMA)) = []"
  by (simp add: DATA_FILE_META_SCHEMA_def required_def defaulted_def)

text \<open>
  Claim C4. A record that was encoded with the twelve original fields and with none of the
  six optional ones is decoded without error under \<open>DATA_FILE_META_SCHEMA\<close>: the result has
  the 18 fields of the schema, each optional field is null, its default, and each original
  field has the stored value.
\<close>

theorem decode_without_optional_fields:
  assumes "set original_names \<subseteq> fst ` set encoded"
    and "set optional_names \<inter> fst ` set encoded = {}"
  shows "\<exists>decoded. decode DATA_FILE_META_SCHEMA encoded = Inr decoded \<and>
           map fst decoded = original_names @ optional_names \<and>
           map (map_of decoded) optional_names = replicate 6 (Some VNull) \<and>
           map (map_of decoded) original_names = map (map_of encoded) original_names"
proof -
  have req: "\<forall>f \<in> set (sfields DATA_FILE_META_SCHEMA).
               fdefault f = None \<longrightarrow> fname f \<in> fst ` set encoded"
    using assms(1)
    by (simp add: DATA_FILE_META_SCHEMA_def required_def defaulted_def original_names_def)
  from assms(2) have absent: "\<forall>n \<in> set optional_names. map_of encoded n = None"
    by (auto simp: map_of_eq_None_iff)
  from assms(1) have present: "\<forall>n \<in> set original_names. \<exists>v. map_of encoded n = Some v"
    by (metis map_of_eq_None_iff not_None_eq subsetD)
  have names: "map fname (sfields DATA_FILE_META_SCHEMA) = original_names @ optional_names"
    by (simp add: DATA_FILE_META_SCHEMA_def required_def defaulted_def original_names_def
        optional_names_def)
  let ?decoded = "map (\<lambda>f. (fname f, case map_of encoded (fname f) of
                                     Some v \<Rightarrow> v | None \<Rightarrow> the (fdefault f)))
                    (sfields DATA_FILE_META_SCHEMA)"
  have d: "decode DATA_FILE_META_SCHEMA encoded = Inr ?decoded"
    unfolding decode_def by (rule decode_fields_total [OF req])
  have k: "map fst ?decoded = original_names @ optional_names"
    using names by (simp add: comp_def)
  have o: "map (map_of ?decoded) optional_names = replicate 6 (Some VNull)"
    using absent
    by (simp add: DATA_FILE_META_SCHEMA_def required_def defaulted_def optional_names_def
        numeral_eq_Suc)
  have r: "map (map_of ?decoded) original_names = map (map_of encoded) original_names"
    using present
    by (auto simp: DATA_FILE_META_SCHEMA_def required_def defaulted_def original_names_def)
  from d k o r show ?thesis by blast
qed

text \<open>The theorem at a record of an older manifest.\<close>

theorem decode_without_optional_fields_witness:
  "set original_names \<subseteq> fst ` set legacy_encoded \<and>
   set optional_names \<inter> fst ` set legacy_encoded = {} \<and>
   (\<exists>decoded. decode DATA_FILE_META_SCHEMA legacy_encoded = Inr decoded \<and>
      map fst decoded = original_names @ optional_names \<and>
      map (map_of decoded) optional_names = replicate 6 (Some VNull) \<and>
      map (map_of decoded) original_names = map (map_of legacy_encoded) original_names)"
proof -
  have a: "set original_names \<subseteq> fst ` set legacy_encoded"
    by (simp add: original_names_def legacy_encoded_def)
  have b: "set optional_names \<inter> fst ` set legacy_encoded = {}"
    by (simp add: optional_names_def legacy_encoded_def)
  from decode_without_optional_fields [OF a b] a b show ?thesis by blast
qed

end
